theory Spec2Isabelle
  imports Complex_Main "HOL-Library.Sublist"
begin

section \<open>Python values, text and exceptions\<close>

text \<open>
  The chatbot of \<^verbatim>\<open>src/chatbot.py\<close> works on Python \<^verbatim>\<open>str\<close> values. A text is modelled
  as a list of \<^typ>\<open>char\<close>, each \<^typ>\<open>char\<close> read as the code point of the same number, so the
  texts of the model are those over the code points 0 to 255. The character classes below
  (white space, decimal digits, word characters, upper case) are the ones Python 3 assigns
  to these code points.

  A message handed to the chatbot need not be a \<^verbatim>\<open>str\<close>: the sanitizer tests for it. The
  values a caller may pass are a text, \<^verbatim>\<open>None\<close> or an integer.
\<close>

datatype pyval = PStr string | PNone | PInt int

fun is_str :: "pyval \<Rightarrow> bool" where
  "is_str (PStr s) = True"
| "is_str v = False"

text \<open>
  The classes of \<^verbatim>\<open>Exception\<close> that the code names or that its library calls raise.
  Each carries its message; \<^verbatim>\<open>str(e)\<close> returns it.
\<close>

datatype pyexc =
    ValueError string
  | AttributeError string
  | TypeError string
  | KeyError string
  | IndexError string
  | RuntimeError string

fun exc_str :: "pyexc \<Rightarrow> string" where
  "exc_str (ValueError m) = m"
| "exc_str (AttributeError m) = m"
| "exc_str (TypeError m) = m"
| "exc_str (KeyError m) = m"
| "exc_str (IndexError m) = m"
| "exc_str (RuntimeError m) = m"

subsection \<open>Character classes\<close>

text \<open>\<^verbatim>\<open>str.isspace\<close> below code point 256: 9 to 13, 28 to 32, 133 and 160.\<close>

definition whitespace :: "char list" where
  "whitespace = [CHR 0x09, CHR 0x0A, CHR 0x0B, CHR 0x0C, CHR 0x0D,
                 CHR 0x1C, CHR 0x1D, CHR 0x1E, CHR 0x1F, CHR 0x20, CHR 0x85, CHR 0xA0]"

definition is_space :: "char \<Rightarrow> bool" where
  "is_space c = (c \<in> set whitespace)"

text \<open>The class \<^verbatim>\<open>\d\<close> of the module \<^verbatim>\<open>re\<close> below code point 256: the ten ASCII digits.\<close>

definition is_digit :: "char \<Rightarrow> bool" where
  "is_digit c = (c \<in> set ''0123456789'')"

text \<open>
  \<^verbatim>\<open>str.lower\<close> below code point 256 maps \<^verbatim>\<open>A\<close> to \<^verbatim>\<open>Z\<close> and the code points 192 to 222
  except 215 to the code point 32 higher, and leaves every other character alone.
\<close>

definition upper_chars :: "char list" where
  "upper_chars = ''ABCDEFGHIJKLMNOPQRSTUVWXYZ'' @
     [CHR 0xC0, CHR 0xC1, CHR 0xC2, CHR 0xC3, CHR 0xC4, CHR 0xC5, CHR 0xC6, CHR 0xC7,
      CHR 0xC8, CHR 0xC9, CHR 0xCA, CHR 0xCB, CHR 0xCC, CHR 0xCD, CHR 0xCE, CHR 0xCF,
      CHR 0xD0, CHR 0xD1, CHR 0xD2, CHR 0xD3, CHR 0xD4, CHR 0xD5, CHR 0xD6,
      CHR 0xD8, CHR 0xD9, CHR 0xDA, CHR 0xDB, CHR 0xDC, CHR 0xDD, CHR 0xDE]"

definition lower_chars :: "char list" where
  "lower_chars = ''abcdefghijklmnopqrstuvwxyz'' @
     [CHR 0xE0, CHR 0xE1, CHR 0xE2, CHR 0xE3, CHR 0xE4, CHR 0xE5, CHR 0xE6, CHR 0xE7,
      CHR 0xE8, CHR 0xE9, CHR 0xEA, CHR 0xEB, CHR 0xEC, CHR 0xED, CHR 0xEE, CHR 0xEF,
      CHR 0xF0, CHR 0xF1, CHR 0xF2, CHR 0xF3, CHR 0xF4, CHR 0xF5, CHR 0xF6,
      CHR 0xF8, CHR 0xF9, CHR 0xFA, CHR 0xFB, CHR 0xFC, CHR 0xFD, CHR 0xFE]"

definition lower_char :: "char \<Rightarrow> char" where
  "lower_char c = (case map_of (zip upper_chars lower_chars) c of Some d \<Rightarrow> d | None \<Rightarrow> c)"

definition py_lower :: "string \<Rightarrow> string" where
  "py_lower s = map lower_char s"

text \<open>
  The class \<^verbatim>\<open>\w\<close> of \<^verbatim>\<open>re\<close> on a \<^verbatim>\<open>str\<close> pattern: the underscore and every character for
  which \<^verbatim>\<open>str.isalnum\<close> holds. Below code point 256 these are the ASCII letters and digits,
  the letters of the upper half, and the code points 170, 178, 179, 181, 185, 186, 188, 189
  and 190.
\<close>

definition word_chars :: "char list" where
  "word_chars = ''_0123456789'' @ upper_chars @ lower_chars @
     [CHR 0xAA, CHR 0xB2, CHR 0xB3, CHR 0xB5, CHR 0xB9, CHR 0xBA, CHR 0xBC, CHR 0xBD,
      CHR 0xBE, CHR 0xDF, CHR 0xFF]"

definition is_word :: "char \<Rightarrow> bool" where
  "is_word c = (c \<in> set word_chars)"

subsection \<open>String methods\<close>

text \<open>\<^verbatim>\<open>s.strip()\<close>: drop the white space at both ends.\<close>

definition py_strip :: "string \<Rightarrow> string" where
  "py_strip s = rev (dropWhile is_space (rev (dropWhile is_space s)))"

text \<open>\<^verbatim>\<open>s.replace(c, '')\<close> for a one-character \<^verbatim>\<open>c\<close>: drop every occurrence of it.\<close>

definition remove_char :: "char \<Rightarrow> string \<Rightarrow> string" where
  "remove_char c s = filter (\<lambda>x. x \<noteq> c) s"

text \<open>\<^verbatim>\<open>k in s\<close> on two texts: \<^verbatim>\<open>k\<close> occurs in \<^verbatim>\<open>s\<close> as a contiguous piece.\<close>

fun starts_with :: "string \<Rightarrow> string \<Rightarrow> bool" where
  "starts_with [] s = True"
| "starts_with (k # ks) [] = False"
| "starts_with (k # ks) (c # cs) = (k = c \<and> starts_with ks cs)"

fun py_in :: "string \<Rightarrow> string \<Rightarrow> bool" where
  "py_in k [] = (k = [])"
| "py_in k (c # cs) = (starts_with k (c # cs) \<or> py_in k cs)"

section \<open>SecurityValidator\<close>

subsection \<open>sanitize_input\<close>

text \<open>
  \<^verbatim>\<open>re.sub(r'[<>"\';]', '', user_input)\<close> deletes every character of the class, which
  holds the five characters listed here (in the raw pattern the backslash only escapes the
  quote).
\<close>

definition harmful :: "char list" where
  "harmful = [CHR ''<'', CHR ''>'', CHR 0x22, CHR 0x27, CHR '';'']"

fun sanitize_input :: "pyval \<Rightarrow> string" where
  "sanitize_input (PStr user_input) =
     py_strip (filter (\<lambda>c. c \<notin> set harmful) user_input)"
| "sanitize_input v = []"

subsection \<open>Regular expressions\<close>

text \<open>
  The three patterns of the program use a small part of the module \<^verbatim>\<open>re\<close>: literal
  characters, \<^verbatim>\<open>\d\<close>, concatenation, the greedy \<^verbatim>\<open>?\<close>, \<^verbatim>\<open>*\<close> and \<^verbatim>\<open>{m,n}\<close>, one capturing
  group, and the assertions \<^verbatim>\<open>^\<close>, \<^verbatim>\<open>$\<close> and \<^verbatim>\<open>\b\<close>. A non-capturing group \<^verbatim>\<open>(?:r)\<close> is
  \<open>r\<close> itself.
\<close>

datatype regex =
    Lit char
  | Digit
  | Seq regex regex
  | Opt regex
  | Star regex
  | Rep regex nat nat
  | Group regex
  | Bol
  | Eol
  | WordB

text \<open>
  A position of the matcher in its subject: the characters to the left of it, nearest
  first, the characters to the right, and what group 1 has captured.
\<close>

record mstate =
  seen :: string
  rest :: string
  group1 :: "string option"

text \<open>
  The matcher backtracks. \<open>matches r st\<close> lists the positions at which a match of \<open>r\<close>
  that starts at \<open>st\<close> can end, in the order in which \<^verbatim>\<open>re\<close> tries them: a greedy
  repetition tries one more round before it tries to stop. The first position of the list
  for the whole pattern is the match \<^verbatim>\<open>re\<close> reports.
\<close>

fun star_iter :: "nat \<Rightarrow> (mstate \<Rightarrow> mstate list) \<Rightarrow> mstate \<Rightarrow> mstate list" where
  "star_iter 0 f st = [st]"
| "star_iter (Suc n) f st =
     concat (map (star_iter n f)
               (filter (\<lambda>st'. length (rest st') < length (rest st)) (f st))) @ [st]"

fun rep_iter :: "(mstate \<Rightarrow> mstate list) \<Rightarrow> nat \<Rightarrow> nat \<Rightarrow> mstate \<Rightarrow> mstate list" where
  "rep_iter f lo 0 st = (if lo = 0 then [st] else [])"
| "rep_iter f lo (Suc hi) st =
     concat (map (rep_iter f (lo - 1) hi) (f st)) @ (if lo = 0 then [st] else [])"

text \<open>\<^verbatim>\<open>\b\<close>: exactly one of the two neighbours of the position is a word character.\<close>

definition at_boundary :: "mstate \<Rightarrow> bool" where
  "at_boundary st =
     ((case seen st of [] \<Rightarrow> False | c # cs \<Rightarrow> is_word c) \<noteq>
      (case rest st of [] \<Rightarrow> False | c # cs \<Rightarrow> is_word c))"

text \<open>The text between a position and a later one.\<close>

definition consumed :: "string \<Rightarrow> mstate \<Rightarrow> string" where
  "consumed b m = rev (take (length (seen m) - length b) (seen m))"

text \<open>The position \<open>k\<close> characters further to the right.\<close>

definition step_digits :: "nat \<Rightarrow> mstate \<Rightarrow> mstate" where
  "step_digits k st = st\<lparr>seen := rev (take k (rest st)) @ seen st, rest := drop k (rest st)\<rparr>"

text \<open>
  Without the flag \<^verbatim>\<open>MULTILINE\<close>, \<^verbatim>\<open>^\<close> holds at the start of the subject only, and \<^verbatim>\<open>$\<close>
  holds at its end and also just before a line feed that ends it. A round of \<^verbatim>\<open>*\<close> that
  consumes nothing ends the repetition.
\<close>

primrec matches :: "regex \<Rightarrow> mstate \<Rightarrow> mstate list" where
  "matches (Lit a) = (\<lambda>st. case rest st of [] \<Rightarrow> [] | c # cs \<Rightarrow>
      if c = a then [st\<lparr>seen := c # seen st, rest := cs\<rparr>] else [])"
| "matches Digit = (\<lambda>st. case rest st of [] \<Rightarrow> [] | c # cs \<Rightarrow>
      if is_digit c then [st\<lparr>seen := c # seen st, rest := cs\<rparr>] else [])"
| "matches (Seq r1 r2) = (\<lambda>st. concat (map (matches r2) (matches r1 st)))"
| "matches (Opt r) = (\<lambda>st. matches r st @ [st])"
| "matches (Star r) = (\<lambda>st. star_iter (length (rest st)) (matches r) st)"
| "matches (Rep r lo hi) = (\<lambda>st. rep_iter (matches r) lo hi st)"
| "matches (Group r) =
     (\<lambda>st. map (\<lambda>st'. st'\<lparr>group1 := Some (consumed (seen st) st')\<rparr>) (matches r st))"
| "matches Bol = (\<lambda>st. if seen st = [] then [st] else [])"
| "matches Eol = (\<lambda>st. if rest st = [] \<or> rest st = [CHR 0x0A] then [st] else [])"
| "matches WordB = (\<lambda>st. if at_boundary st then [st] else [])"

definition match_at :: "regex \<Rightarrow> string \<Rightarrow> string \<Rightarrow> mstate option" where
  "match_at r b s = (case matches r \<lparr>seen = b, rest = s, group1 = None\<rparr> of
      [] \<Rightarrow> None | m # ms \<Rightarrow> Some m)"

text \<open>\<^verbatim>\<open>re.match(pattern, s)\<close>: a match that starts at the first character, or \<^verbatim>\<open>None\<close>.\<close>

definition re_match :: "regex \<Rightarrow> string \<Rightarrow> mstate option" where
  "re_match r s = match_at r [] s"

primrec has_group :: "regex \<Rightarrow> bool" where
  "has_group (Lit a) = False"
| "has_group Digit = False"
| "has_group (Seq r1 r2) = (has_group r1 \<or> has_group r2)"
| "has_group (Opt r) = has_group r"
| "has_group (Star r) = has_group r"
| "has_group (Rep r lo hi) = has_group r"
| "has_group (Group r) = True"
| "has_group Bol = False"
| "has_group Eol = False"
| "has_group WordB = False"

text \<open>
  What \<^verbatim>\<open>re.findall\<close> puts in its list for one match: the text of group 1 when the pattern
  has a group (the empty text when the group took no part), the whole match otherwise.
\<close>

definition findall_item :: "regex \<Rightarrow> string \<Rightarrow> mstate \<Rightarrow> string" where
  "findall_item r b m =
     (if has_group r then (case group1 m of None \<Rightarrow> [] | Some g \<Rightarrow> g) else consumed b m)"

text \<open>
  \<^verbatim>\<open>re.findall\<close> scans from left to right: at each position it takes the match that starts
  there, if there is one, and goes on behind it; otherwise it moves one character on.
  (After a match that consumed nothing it moves one character on as well; none of the
  patterns of this program has such a match.)
\<close>

function findall_from :: "regex \<Rightarrow> string \<Rightarrow> string \<Rightarrow> string list" where
  "findall_from r b s =
     (case match_at r b s of
        None \<Rightarrow> (case s of [] \<Rightarrow> [] | c # cs \<Rightarrow> findall_from r (c # b) cs)
      | Some m \<Rightarrow>
          findall_item r b m #
            (if length (rest m) < length s then findall_from r (seen m) (rest m)
             else case s of [] \<Rightarrow> [] | c # cs \<Rightarrow> findall_from r (c # b) cs))"
  by pat_completeness auto
termination
  by (relation "measure (\<lambda>(r, b, s). length s)") auto

definition re_findall :: "regex \<Rightarrow> string \<Rightarrow> string list" where
  "re_findall r s = findall_from r [] s"

subsection \<open>validate_account_number\<close>

text \<open>The pattern \<^verbatim>\<open>^\d{10,12}$\<close>.\<close>

definition account_number_format :: regex where
  "account_number_format = Seq Bol (Seq (Rep Digit 10 12) Eol)"

text \<open>
  \<^verbatim>\<open>bool(re.match(pattern, account_number))\<close>; \<^verbatim>\<open>re.match\<close> raises \<^verbatim>\<open>TypeError\<close> on a
  subject that is not a text, and a match object is true.
\<close>

fun validate_account_number :: "pyval \<Rightarrow> pyexc + bool" where
  "validate_account_number (PStr account_number) =
     Inr (re_match account_number_format account_number \<noteq> None)"
| "validate_account_number v = Inl (TypeError ''expected string or bytes-like object'')"

subsection \<open>validate_amount\<close>

text \<open>
  A Python \<^verbatim>\<open>float\<close> is a binary64 number: a rational that the format represents, an
  infinity, or a NaN. The two zeros are not told apart (they compare equal).
\<close>

datatype pyfloat = Finite rat | PosInf | NegInf | NaN

fun float_neg :: "pyfloat \<Rightarrow> pyfloat" where
  "float_neg (Finite x) = Finite (- x)"
| "float_neg PosInf = NegInf"
| "float_neg NegInf = PosInf"
| "float_neg NaN = NaN"

text \<open>The comparison \<^verbatim>\<open>x > 0\<close>.\<close>

fun float_gt_zero :: "pyfloat \<Rightarrow> bool" where
  "float_gt_zero (Finite x) = (0 < x)"
| "float_gt_zero PosInf = True"
| "float_gt_zero NegInf = False"
| "float_gt_zero NaN = False"

text \<open>The number of binary digits of a natural number.\<close>

fun bitlen :: "nat \<Rightarrow> nat" where
  "bitlen n = (if n = 0 then 0 else Suc (bitlen (n div 2)))"

text \<open>\<open>a / b\<close> rounded to the nearest integer, a tie to the even one.\<close>

definition round_half_even :: "nat \<Rightarrow> nat \<Rightarrow> nat" where
  "round_half_even a b =
     (let q = a div b; r = a mod b in
      if 2 * r < b then q
      else if b < 2 * r then q + 1
      else if even q then q else q + 1)"

text \<open>
  The binary64 number nearest to the positive rational \<open>n / d\<close> (both positive): with \<open>e\<close>
  the binary exponent of \<open>n / d\<close>, not below -1022, the value is rounded to a multiple of
  \<open>2 ^ (e - 52)\<close>, and a result of \<open>2 ^ 1024\<close> or more is the infinity.
\<close>

definition round_binary64 :: "nat \<Rightarrow> nat \<Rightarrow> pyfloat" where
  "round_binary64 n d =
     (let e0 = int (bitlen n) - int (bitlen d);
          e = (if (if 0 \<le> e0 then 2 ^ nat e0 * d \<le> n else d \<le> 2 ^ nat (- e0) * n)
               then e0 else e0 - 1);
          u = max e (- 1022) - 52;
          k = (if 0 \<le> u then round_half_even n (d * 2 ^ nat u)
               else round_half_even (n * 2 ^ nat (- u)) d)
      in if 0 \<le> u then
           (if (2::nat) ^ 1024 \<le> k * 2 ^ nat u then PosInf else Finite (of_int (int k * 2 ^ nat u)))
         else Finite (of_int (int k) / of_int (2 ^ nat (- u))))"

text \<open>The value of a decimal numeral.\<close>

definition digit_value :: "char \<Rightarrow> nat" where
  "digit_value c = (case map_of (zip ''0123456789'' [0, 1, 2, 3, 4, 5, 6, 7, 8, 9]) c of
      Some v \<Rightarrow> v | None \<Rightarrow> 0)"

definition decimal :: "string \<Rightarrow> nat" where
  "decimal ds = foldl (\<lambda>acc c. 10 * acc + digit_value c) 0 ds"

text \<open>
  \<^verbatim>\<open>float(s)\<close> on a text. White space at both ends is dropped; of the white space of
  \<^verbatim>\<open>str.isspace\<close> the four separators 28 to 31 are not dropped here.
\<close>

definition float_space :: "char list" where
  "float_space = [CHR 0x09, CHR 0x0A, CHR 0x0B, CHR 0x0C, CHR 0x0D, CHR 0x20, CHR 0x85, CHR 0xA0]"

definition float_strip :: "string \<Rightarrow> string" where
  "float_strip s =
     rev (dropWhile (\<lambda>c. c \<in> set float_space) (rev (dropWhile (\<lambda>c. c \<in> set float_space) s)))"

text \<open>
  An underscore is accepted between two digits and nowhere else; the numeral is read
  without its underscores. The first argument is the character before the position.
\<close>

fun drop_underscores :: "char option \<Rightarrow> string \<Rightarrow> string option" where
  "drop_underscores prev [] = (if prev = Some CHR ''_'' then None else Some [])"
| "drop_underscores prev (c # cs) =
     (if c = CHR ''_'' then
        (if (case prev of None \<Rightarrow> False | Some p \<Rightarrow> is_digit p)
         then drop_underscores (Some c) cs else None)
      else if prev = Some CHR ''_'' \<and> \<not> is_digit c then None
      else map_option (\<lambda>t. c # t) (drop_underscores (Some c) cs))"

text \<open>
  The exponent part: nothing, or \<^verbatim>\<open>e\<close> or \<^verbatim>\<open>E\<close>, an optional sign and at least one digit,
  up to the end of the text.
\<close>

definition parse_exponent :: "string \<Rightarrow> int option" where
  "parse_exponent s =
     (case s of
        [] \<Rightarrow> Some 0
      | c # cs \<Rightarrow>
          if c = CHR ''e'' \<or> c = CHR ''E'' then
            (let neg = (case cs of [] \<Rightarrow> False | x # xs \<Rightarrow> x = CHR ''-'');
                 ds = (case cs of [] \<Rightarrow> []
                       | x # xs \<Rightarrow> if x = CHR ''-'' \<or> x = CHR ''+'' then xs else cs)
             in if ds \<noteq> [] \<and> list_all is_digit ds
                then Some (if neg then - int (decimal ds) else int (decimal ds))
                else None)
          else None)"

text \<open>
  An unsigned numeral: digits, an optional point and more digits, at least one digit in
  all, and the exponent part. Its value is \<open>m * 10 ^ k\<close> for the digits \<open>m\<close> and the
  exponent \<open>k\<close> less the number of digits behind the point.
\<close>

definition parse_number :: "string \<Rightarrow> pyfloat option" where
  "parse_number s =
     (let ip = takeWhile is_digit s;
          r1 = dropWhile is_digit s;
          fp = (case r1 of [] \<Rightarrow> []
                | c # cs \<Rightarrow> if c = CHR ''.'' then takeWhile is_digit cs else []);
          r2 = (case r1 of [] \<Rightarrow> []
                | c # cs \<Rightarrow> if c = CHR ''.'' then dropWhile is_digit cs else r1)
      in if ip @ fp = [] then None
         else (case parse_exponent r2 of
                 None \<Rightarrow> None
               | Some x \<Rightarrow>
                   (let m = decimal (ip @ fp);
                        k = x - int (length fp)
                    in Some (if m = 0 then Finite 0
                             else if 0 \<le> k then round_binary64 (m * 10 ^ nat k) 1
                             else round_binary64 m (10 ^ nat (- k))))))"

text \<open>After the sign: \<^verbatim>\<open>inf\<close>, \<^verbatim>\<open>infinity\<close> or \<^verbatim>\<open>nan\<close> in any case of letters, or a numeral.\<close>

definition parse_unsigned :: "string \<Rightarrow> pyfloat option" where
  "parse_unsigned s =
     (if py_lower s = ''inf'' \<or> py_lower s = ''infinity'' then Some PosInf
      else if py_lower s = ''nan'' then Some NaN
      else parse_number s)"

definition py_float :: "string \<Rightarrow> pyexc + pyfloat" where
  "py_float s =
     (case (case drop_underscores None (float_strip s) of
              None \<Rightarrow> None
            | Some [] \<Rightarrow> None
            | Some (c # cs) \<Rightarrow>
                if c = CHR ''-'' then map_option float_neg (parse_unsigned cs)
                else if c = CHR ''+'' then parse_unsigned cs
                else parse_unsigned (c # cs)) of
        None \<Rightarrow> Inl (ValueError ''could not convert string to float'')
      | Some x \<Rightarrow> Inr x)"

text \<open>
  \<^verbatim>\<open>float(amount.replace('$', '').replace(',', ''))\<close>: a value without the method
  \<^verbatim>\<open>replace\<close> raises \<^verbatim>\<open>AttributeError\<close>.
\<close>

fun parse_amount :: "pyval \<Rightarrow> pyexc + pyfloat" where
  "parse_amount (PStr amount) = py_float (remove_char CHR '','' (remove_char CHR ''$'' amount))"
| "parse_amount v = Inl (AttributeError ''object has no attribute replace'')"

text \<open>
  The body of \<^verbatim>\<open>validate_amount\<close> with its handler for \<^verbatim>\<open>ValueError\<close> and
  \<^verbatim>\<open>AttributeError\<close>; an exception of another class would leave the function.
\<close>

definition validate_amount :: "pyval \<Rightarrow> pyexc + bool \<times> pyfloat" where
  "validate_amount amount =
     (case parse_amount amount of
        Inr parsed_amount \<Rightarrow> Inr (float_gt_zero parsed_amount, parsed_amount)
      | Inl (ValueError m) \<Rightarrow> Inr (False, Finite 0)
      | Inl (AttributeError m) \<Rightarrow> Inr (False, Finite 0)
      | Inl e \<Rightarrow> Inl e)"


section \<open>IntentClassifier\<close>

datatype IntentType =
    GREETING
  | ACCOUNT_BALANCE
  | TRANSACTION_HISTORY
  | TRANSFER_MONEY
  | LOAN_INFO
  | INVESTMENT_ADVICE
  | SUPPORT
  | GOODBYE
  | UNKNOWN

text \<open>The attribute \<^verbatim>\<open>value\<close> of a member of the enumeration.\<close>

fun intent_value :: "IntentType \<Rightarrow> string" where
  "intent_value GREETING = ''greeting''"
| "intent_value ACCOUNT_BALANCE = ''account_balance''"
| "intent_value TRANSACTION_HISTORY = ''transaction_history''"
| "intent_value TRANSFER_MONEY = ''transfer_money''"
| "intent_value LOAN_INFO = ''loan_info''"
| "intent_value INVESTMENT_ADVICE = ''investment_advice''"
| "intent_value SUPPORT = ''support''"
| "intent_value GOODBYE = ''goodbye''"
| "intent_value UNKNOWN = ''unknown''"

text \<open>
  The dictionary \<^verbatim>\<open>intent_keywords\<close> that \<^verbatim>\<open>__init__\<close> builds. A Python dictionary
  iterates in the order of insertion, so it is kept as a list of its items in the order
  of the literal.
\<close>

definition intent_keywords :: "(IntentType \<times> string list) list" where
  "intent_keywords =
     [(GREETING, [''hello'', ''hi'', ''hey'', ''good morning'', ''good afternoon'']),
      (ACCOUNT_BALANCE, [''balance'', ''account balance'', ''how much'', ''funds'']),
      (TRANSACTION_HISTORY, [''transactions'', ''history'', ''statement'', ''activity'']),
      (TRANSFER_MONEY, [''transfer'', ''send money'', ''pay'', ''wire'']),
      (LOAN_INFO, [''loan'', ''mortgage'', ''credit'', ''borrow'']),
      (INVESTMENT_ADVICE, [''invest'', ''portfolio'', ''stocks'', ''bonds'', ''mutual funds'']),
      (SUPPORT, [''help'', ''support'', ''customer service'', ''problem'']),
      (GOODBYE, [''bye'', ''goodbye'', ''exit'', ''quit'', ''thank you''])]"

text \<open>What the program hands to its logger: a level and a line.\<close>

datatype log_level = INFO | ERROR

type_synonym log_record = "log_level \<times> string"

text \<open>
  The loop of \<^verbatim>\<open>classify_intent\<close> over the items of the dictionary: the first intent
  one of whose keywords occurs in the lower-cased text.
\<close>

fun classify_scan :: "(IntentType \<times> string list) list \<Rightarrow> string \<Rightarrow> IntentType option" where
  "classify_scan [] user_input_lower = None"
| "classify_scan ((intent, keywords) # items) user_input_lower =
     (if list_ex (\<lambda>keyword. py_in keyword user_input_lower) keywords then Some intent
      else classify_scan items user_input_lower)"

text \<open>
  \<^verbatim>\<open>classify_intent\<close> returns the lines it logs and its outcome. A value without the
  method \<^verbatim>\<open>lower\<close> raises \<^verbatim>\<open>AttributeError\<close> before anything is logged.
\<close>

fun classify_intent :: "pyval \<Rightarrow> log_record list \<times> (pyexc + IntentType)" where
  "classify_intent (PStr user_input) =
     (case classify_scan intent_keywords (py_lower user_input) of
        Some intent \<Rightarrow> ([(INFO, ''Intent classified: '' @ intent_value intent)], Inr intent)
      | None \<Rightarrow> ([(INFO, ''Intent classified: unknown'')], Inr UNKNOWN))"
| "classify_intent v = ([], Inl (AttributeError ''object has no attribute lower''))"

subsection \<open>The classifier as the specification words it\<close>

text \<open>
  The specification of the classifier: lower-case the text; go through the intents in the
  declared order; for each, test whether any of its keywords occurs anywhere in the
  lower-cased text; return the first intent with a match, and \<^verbatim>\<open>unknown\<close> when there is
  none. The keywords of an intent are those the dictionary of the source lists for it.
\<close>

definition declared_order :: "IntentType list" where
  "declared_order =
     [GREETING, ACCOUNT_BALANCE, TRANSACTION_HISTORY, TRANSFER_MONEY, LOAN_INFO,
      INVESTMENT_ADVICE, SUPPORT, GOODBYE]"

definition keywords_of :: "IntentType \<Rightarrow> string list" where
  "keywords_of intent = (case map_of intent_keywords intent of None \<Rightarrow> [] | Some ks \<Rightarrow> ks)"

definition keyword_occurs :: "IntentType \<Rightarrow> string \<Rightarrow> bool" where
  "keyword_occurs intent text = list_ex (\<lambda>k. sublist k (py_lower text)) (keywords_of intent)"

definition classify_spec :: "string \<Rightarrow> IntentType" where
  "classify_spec text =
     (case filter (\<lambda>intent. keyword_occurs intent text) declared_order of
        [] \<Rightarrow> UNKNOWN
      | intent # others \<Rightarrow> intent)"

section \<open>UserSession\<close>

text \<open>
  The data class \<^verbatim>\<open>UserSession\<close>. The field \<^verbatim>\<open>context\<close> is a dictionary, empty after
  \<^verbatim>\<open>__post_init__\<close>; it is named \<open>session_context\<close> here.
\<close>

record UserSession =
  user_id :: string
  authenticated :: bool
  session_context :: "(string \<times> pyval) list"
  last_intent :: "IntentType option"

text \<open>\<^verbatim>\<open>UserSession(user_id=user_id)\<close>.\<close>

definition new_session :: "string \<Rightarrow> UserSession" where
  "new_session uid =
     \<lparr>user_id = uid, authenticated = False, session_context = [], last_intent = None\<rparr>"

section \<open>ResponseGenerator\<close>

text \<open>The entities extracted from a message: a dictionary from names to values.\<close>

type_synonym entities = "string \<rightharpoonup> pyval"

text \<open>
  The character U+2022 of four replies lies beyond the code points of \<^typ>\<open>char\<close>; a reply
  holds the three bytes of its UTF-8 form in its place.
\<close>

definition bullet :: string where
  "bullet = [CHR 0xE2, CHR 0x80, CHR 0xA2]"

definition apostrophe :: string where
  "apostrophe = [CHR 0x27]"

definition responses :: "(IntentType \<times> string list) list" where
  "responses =
     [(GREETING,
       [''Hello! Welcome to SecureBank. How can I assist you today?'',
        ''Hi there! I'' @ apostrophe @ ''m here to help with your banking needs. What can I do for you?'',
        ''Good day! How may I help you with your financial services today?'']),
      (GOODBYE,
       [''Thank you for using SecureBank! Have a great day!'',
        ''Goodbye! Feel free to reach out anytime you need assistance.'',
        ''Take care! Remember, I'' @ apostrophe @ ''m here 24/7 for your banking needs.''])]"

text \<open>
  \<^verbatim>\<open>random.choice(self.responses[intent])\<close>. The last argument stands for the draw of
  the random source; the choice is the element at the draw modulo the length. A missing
  key raises \<^verbatim>\<open>KeyError\<close>, an empty list \<^verbatim>\<open>IndexError\<close>.
\<close>

definition get_random_response :: "IntentType \<Rightarrow> nat \<Rightarrow> pyexc + string" where
  "get_random_response intent rnd =
     (case map_of responses intent of
        None \<Rightarrow> Inl (KeyError (intent_value intent))
      | Some choices \<Rightarrow>
          if choices = [] then Inl (IndexError ''Cannot choose from an empty sequence'')
          else Inr (choices ! (rnd mod length choices)))"

definition request_authentication :: string where
  "request_authentication =
     ''For security purposes, I'' @ apostrophe @ ''ll need to verify your identity first. '' @
     ''Please provide your account number or contact customer service at 1-800-SECURE.''"

definition handle_balance_inquiry :: "UserSession \<Rightarrow> pyexc + string" where
  "handle_balance_inquiry session =
     (let mock_balance = ''$2,547.83''
      in Inr (''Your current account balance is '' @ mock_balance @
              ''. Is there anything else I can help you with?''))"

definition handle_transaction_history :: "UserSession \<Rightarrow> pyexc + string" where
  "handle_transaction_history session =
     Inr (''Here are your recent transactions:\<newline>'' @
          bullet @ '' Dec 15: Grocery Store - $85.42\<newline>'' @
          bullet @ '' Dec 14: Online Transfer - $200.00\<newline>'' @
          bullet @ '' Dec 13: ATM Withdrawal - $60.00\<newline>'' @
          ''Would you like more details about any specific transaction?'')"

definition handle_transfer_request :: "entities \<Rightarrow> pyexc + string" where
  "handle_transfer_request extracted_data =
     Inr (''I can help you with transfers. For security, please visit our secure '' @
          ''online portal or mobile app to complete transfers. You can also call '' @
          ''our customer service at 1-800-SECURE.'')"

definition handle_loan_inquiry :: "pyexc + string" where
  "handle_loan_inquiry =
     Inr (''We offer various loan products including:\<newline>'' @
          bullet @ '' Personal loans (5.99% - 15.99% APR)\<newline>'' @
          bullet @ '' Auto loans (3.49% - 7.99% APR)\<newline>'' @
          bullet @ '' Home mortgages (competitive rates)\<newline>'' @
          ''Would you like to speak with a loan specialist?'')"

definition handle_investment_inquiry :: "pyexc + string" where
  "handle_investment_inquiry =
     Inr (''Investment advice should be personalized to your financial situation. '' @
          ''I recommend speaking with one of our certified financial advisors. '' @
          ''Would you like me to schedule a consultation for you?'')"

definition handle_support_request :: "pyexc + string" where
  "handle_support_request =
     Inr (''I'' @ apostrophe @ ''m here to help! For complex issues, you can:\<newline>'' @
          bullet @ '' Call customer service: 1-800-SECURE\<newline>'' @
          bullet @ '' Visit our website: www.securebank.com/support\<newline>'' @
          bullet @ '' Chat with a specialist (Mon-Fri 8AM-8PM)\<newline>'' @
          ''What specific issue can I help you with?'')"

definition handle_unknown_intent :: "pyexc + string" where
  "handle_unknown_intent =
     Inr (''I'' @ apostrophe @ ''m not sure I understand. I can help you with:\<newline>'' @
          bullet @ '' Account balances and transactions\<newline>'' @
          bullet @ '' Loan information\<newline>'' @
          bullet @ '' General banking questions\<newline>'' @
          bullet @ '' Connecting you with customer support\<newline>'' @
          ''How can I assist you today?'')"

text \<open>
  \<^verbatim>\<open>generate_response\<close> reaches its handlers through \<^verbatim>\<open>self\<close>. The record below is that
  \<^verbatim>\<open>self\<close>: one field for each handler method that the dispatch table calls. A handler
  returns its reply or raises.
\<close>

record handlers =
  random_response_of :: "IntentType \<Rightarrow> nat \<Rightarrow> pyexc + string"
  balance_inquiry_of :: "UserSession \<Rightarrow> pyexc + string"
  transaction_history_of :: "UserSession \<Rightarrow> pyexc + string"
  transfer_request_of :: "entities \<Rightarrow> pyexc + string"
  loan_inquiry_of :: "pyexc + string"
  investment_inquiry_of :: "pyexc + string"
  support_request_of :: "pyexc + string"
  unknown_intent_of :: "pyexc + string"

text \<open>The handlers of the class \<^verbatim>\<open>ResponseGenerator\<close> as the source defines them.\<close>

definition ResponseGenerator :: handlers where
  "ResponseGenerator =
     \<lparr>random_response_of = get_random_response,
      balance_inquiry_of = handle_balance_inquiry,
      transaction_history_of = handle_transaction_history,
      transfer_request_of = handle_transfer_request,
      loan_inquiry_of = handle_loan_inquiry,
      investment_inquiry_of = handle_investment_inquiry,
      support_request_of = handle_support_request,
      unknown_intent_of = handle_unknown_intent\<rparr>"

text \<open>The intents that \<^verbatim>\<open>generate_response\<close> answers for an authenticated session only.\<close>

definition authentication_required :: "IntentType list" where
  "authentication_required = [ACCOUNT_BALANCE, TRANSACTION_HISTORY, TRANSFER_MONEY]"

text \<open>
  The dictionary \<^verbatim>\<open>response_map\<close>: for each intent what its entry returns when it is
  called. The entries are pure, so the table holds their results.
\<close>

definition response_map ::
  "handlers \<Rightarrow> UserSession \<Rightarrow> entities \<Rightarrow> nat \<Rightarrow> (IntentType \<times> (pyexc + string)) list" where
  "response_map self session extracted_data rnd =
     [(GREETING, random_response_of self GREETING rnd),
      (ACCOUNT_BALANCE, balance_inquiry_of self session),
      (TRANSACTION_HISTORY, transaction_history_of self session),
      (TRANSFER_MONEY, transfer_request_of self extracted_data),
      (LOAN_INFO, loan_inquiry_of self),
      (INVESTMENT_ADVICE, investment_inquiry_of self),
      (SUPPORT, support_request_of self),
      (GOODBYE, random_response_of self GOODBYE rnd),
      (UNKNOWN, unknown_intent_of self)]"

definition generate_response ::
  "handlers \<Rightarrow> IntentType \<Rightarrow> UserSession \<Rightarrow> entities option \<Rightarrow> nat \<Rightarrow> pyexc + string" where
  "generate_response self intent session extracted_data rnd =
     (let extracted_data = (case extracted_data of None \<Rightarrow> Map.empty | Some d \<Rightarrow> d)
      in if intent \<in> set authentication_required \<and> \<not> authenticated session
         then Inr request_authentication
         else (case map_of (response_map self session extracted_data rnd) intent of
                 Some reply \<Rightarrow> reply
               | None \<Rightarrow> unknown_intent_of self))"

section \<open>FintechChatbot\<close>

subsection \<open>Entity extraction\<close>

text \<open>The pattern \<^verbatim>\<open>\$?(\d{1,3}(?:,\d{3})*(?:\.\d{2})?)\<close>.\<close>

definition amount_pattern :: regex where
  "amount_pattern =
     Seq (Opt (Lit CHR ''$''))
         (Group (Seq (Rep Digit 1 3)
                     (Seq (Star (Seq (Lit CHR '','') (Rep Digit 3 3)))
                          (Opt (Seq (Lit CHR ''.'') (Rep Digit 2 2))))))"

text \<open>The pattern \<^verbatim>\<open>\b\d{10,12}\b\<close>.\<close>

definition account_pattern :: regex where
  "account_pattern = Seq WordB (Seq (Rep Digit 10 12) WordB)"

definition extract_entities :: "string \<Rightarrow> entities" where
  "extract_entities message =
     (let entities = Map.empty;
          amounts = re_findall amount_pattern message;
          entities = (case amounts of [] \<Rightarrow> entities
                      | a # as \<Rightarrow> entities(''amount'' \<mapsto> PStr a));
          accounts = re_findall account_pattern message;
          entities = (case accounts of [] \<Rightarrow> entities
                      | a # as \<Rightarrow> entities(''account_number'' \<mapsto> PStr a))
      in entities)"

subsection \<open>Sessions\<close>

text \<open>
  The mutable part of a \<^verbatim>\<open>FintechChatbot\<close>: the dictionary \<^verbatim>\<open>active_sessions\<close> and the
  lines logged so far.
\<close>

record chatbot =
  active_sessions :: "string \<rightharpoonup> UserSession"
  logged :: "log_record list"

definition new_chatbot :: chatbot where
  "new_chatbot =
     \<lparr>active_sessions = Map.empty,
      logged = [(INFO, ''Fintech Chatbot initialized successfully'')]\<rparr>"

definition create_session :: "chatbot \<Rightarrow> string \<Rightarrow> UserSession \<times> chatbot" where
  "create_session chat uid =
     (let session = new_session uid
      in (session,
          chat\<lparr>active_sessions := (active_sessions chat)(uid \<mapsto> session),
              logged := logged chat @ [(INFO, ''New session created for user: '' @ uid)]\<rparr>))"

text \<open>
  \<^verbatim>\<open>self.active_sessions.get(user_id) or self.create_session(user_id)\<close>: a session
  object is true, so a session is created exactly when the key is missing.
\<close>

definition get_session :: "chatbot \<Rightarrow> string \<Rightarrow> UserSession \<times> chatbot" where
  "get_session chat uid =
     (case active_sessions chat uid of
        Some session \<Rightarrow> (session, chat)
      | None \<Rightarrow> create_session chat uid)"

definition end_session :: "chatbot \<Rightarrow> string \<Rightarrow> chatbot" where
  "end_session chat uid =
     (if uid \<in> dom (active_sessions chat)
      then chat\<lparr>active_sessions := (active_sessions chat)(uid := None),
               logged := logged chat @ [(INFO, ''Session ended for user: '' @ uid)]\<rparr>
      else chat)"

subsection \<open>process_message\<close>

text \<open>
  \<^verbatim>\<open>process_message\<close> calls the classifier, the extractor and the generator through
  \<^verbatim>\<open>self\<close>. The record below holds the three as \<^verbatim>\<open>self\<close> has them; each returns its value or
  raises, and the classifier also returns the lines it logged.
\<close>

record components =
  intent_classifier :: "pyval \<Rightarrow> log_record list \<times> (pyexc + IntentType)"
  entity_extractor :: "string \<Rightarrow> pyexc + entities"
  response_generator ::
    "IntentType \<Rightarrow> UserSession \<Rightarrow> entities option \<Rightarrow> nat \<Rightarrow> pyexc + string"

text \<open>The components that \<^verbatim>\<open>FintechChatbot.__init__\<close> and the class itself provide.\<close>

definition FintechChatbot :: components where
  "FintechChatbot =
     \<lparr>intent_classifier = classify_intent,
      entity_extractor = (\<lambda>message. Inr (extract_entities message)),
      response_generator = generate_response ResponseGenerator\<rparr>"

definition invalid_message :: string where
  "invalid_message = ''I didn'' @ apostrophe @ ''t receive a valid message. Please try again.''"

definition apology :: string where
  "apology =
     ''I apologize, but I encountered an error. Please try again or '' @
     ''contact customer support at 1-800-SECURE if the issue persists.''"

text \<open>
  The body of the \<^verbatim>\<open>try\<close> statement. Its outcome is the reply it returns or the
  exception that leaves it, with the state of the chatbot at that moment. The assignment
  to \<^verbatim>\<open>session.last_intent\<close> changes the session object that \<^verbatim>\<open>active_sessions\<close> holds
  under \<^verbatim>\<open>user_id\<close>.
\<close>

definition try_body ::
  "components \<Rightarrow> chatbot \<Rightarrow> string \<Rightarrow> pyval \<Rightarrow> nat \<Rightarrow> (pyexc + string) \<times> chatbot" where
  "try_body self chat uid message rnd =
     (let (session, bot1) = get_session chat uid;
          sanitized_message = sanitize_input message
      in if sanitized_message = [] then (Inr invalid_message, bot1)
         else
           (case intent_classifier self (PStr sanitized_message) of
              (lines, Inl e) \<Rightarrow> (Inl e, bot1\<lparr>logged := logged bot1 @ lines\<rparr>)
            | (lines, Inr intent) \<Rightarrow>
                (let session = session\<lparr>last_intent := Some intent\<rparr>;
                     bot2 = bot1\<lparr>active_sessions := (active_sessions bot1)(uid \<mapsto> session),
                                 logged := logged bot1 @ lines\<rparr>
                 in case entity_extractor self sanitized_message of
                      Inl e \<Rightarrow> (Inl e, bot2)
                    | Inr extracted_data \<Rightarrow>
                        (case response_generator self intent session (Some extracted_data) rnd of
                           Inl e \<Rightarrow> (Inl e, bot2)
                         | Inr response \<Rightarrow>
                             (Inr response,
                              bot2\<lparr>logged := logged bot2 @
                                     [(INFO, ''Processed message for user '' @ uid @ '': '' @
                                             intent_value intent)]\<rparr>)))))"

text \<open>
  \<^verbatim>\<open>process_message\<close>: the body, and the handler \<^verbatim>\<open>except Exception\<close>, which logs the
  exception and returns the apology. The last argument is the draw of the random source
  for this call.
\<close>

definition process_message_with ::
  "components \<Rightarrow> chatbot \<Rightarrow> string \<Rightarrow> pyval \<Rightarrow> nat \<Rightarrow> (pyexc + string) \<times> chatbot" where
  "process_message_with self chat uid message rnd =
     (case try_body self chat uid message rnd of
        (Inr response, chat') \<Rightarrow> (Inr response, chat')
      | (Inl e, chat') \<Rightarrow>
          (Inr apology,
           chat'\<lparr>logged := logged chat' @
                  [(ERROR, ''Error processing message: '' @ exc_str e)]\<rparr>))"

definition process_message ::
  "chatbot \<Rightarrow> string \<Rightarrow> pyval \<Rightarrow> nat \<Rightarrow> (pyexc + string) \<times> chatbot" where
  "process_message = process_message_with FintechChatbot"


subsection \<open>Components that fail\<close>

text \<open>
  Stand-ins for a classifier, an extractor, a generator and a set of handlers that raise on
  every call, and a chatbot that has greeted the user \<^verbatim>\<open>u1\<close> before. They are used to
  exercise the handler of \<^verbatim>\<open>process_message\<close> and the gate of \<^verbatim>\<open>generate_response\<close>.
\<close>

definition failing_classifier :: components where
  "failing_classifier =
     FintechChatbot\<lparr>intent_classifier := (\<lambda>v. ([], Inl (RuntimeError ''classifier fault'')))\<rparr>"

definition failing_extractor :: components where
  "failing_extractor =
     FintechChatbot\<lparr>entity_extractor := (\<lambda>m. Inl (RuntimeError ''extractor fault''))\<rparr>"

definition failing_generator :: components where
  "failing_generator =
     FintechChatbot\<lparr>response_generator := (\<lambda>i s d r. Inl (RuntimeError ''generator fault''))\<rparr>"

definition failing_handlers :: handlers where
  "failing_handlers =
     \<lparr>random_response_of = (\<lambda>i r. Inl (RuntimeError ''handler fault'')),
      balance_inquiry_of = (\<lambda>s. Inl (RuntimeError ''handler fault'')),
      transaction_history_of = (\<lambda>s. Inl (RuntimeError ''handler fault'')),
      transfer_request_of = (\<lambda>d. Inl (RuntimeError ''handler fault'')),
      loan_inquiry_of = Inl (RuntimeError ''handler fault''),
      investment_inquiry_of = Inl (RuntimeError ''handler fault''),
      support_request_of = Inl (RuntimeError ''handler fault''),
      unknown_intent_of = Inl (RuntimeError ''handler fault'')\<rparr>"

definition greeted_chatbot :: chatbot where
  "greeted_chatbot =
     new_chatbot\<lparr>active_sessions :=
       [''u1'' \<mapsto> (new_session ''u1'')\<lparr>last_intent := Some GREETING\<rparr>]\<rparr>"

section \<open>Properties of the sanitizer\<close>

lemma set_py_strip: "set (py_strip s) \<subseteq> set s"
proof -
  have "set (py_strip s) \<subseteq> set (rev (dropWhile is_space s))"
    unfolding py_strip_def using set_dropWhileD by fastforce
  also have "\<dots> \<subseteq> set s"
    using set_dropWhileD by fastforce
  finally show ?thesis .
qed

lemma sanitize_input_clean: "set (sanitize_input (PStr t)) \<inter> set harmful = {}"
  using set_py_strip [of "filter (\<lambda>c. c \<notin> set harmful) t"] by auto

lemma sanitize_input_non_str: "\<not> is_str v \<Longrightarrow> sanitize_input v = []"
  by (cases v) simp_all

text \<open>
  Claim C6. A text free of the five characters \<^verbatim>\<open>< > " ' ;\<close> is sanitized to its
  \<^verbatim>\<open>strip()\<close>; the sanitized form of any text holds none of the five; and a value that is not
  a text is sanitized to the empty text.
\<close>

theorem sanitize_input_spec:
  "(set t \<inter> set harmful = {} \<longrightarrow> sanitize_input (PStr t) = py_strip t)
   \<and> set (sanitize_input (PStr t)) \<inter> set harmful = {}
   \<and> (\<not> is_str v \<longrightarrow> sanitize_input v = [])"
proof (intro conjI impI)
  assume "set t \<inter> set harmful = {}"
  then have "filter (\<lambda>c. c \<notin> set harmful) t = t"
    by (auto simp: filter_id_conv)
  then show "sanitize_input (PStr t) = py_strip t" by simp
next
  show "set (sanitize_input (PStr t)) \<inter> set harmful = {}"
    by (rule sanitize_input_clean)
next
  assume "\<not> is_str v"
  then show "sanitize_input v = []" by (rule sanitize_input_non_str)
qed

theorem sanitize_input_spec_witness:
  "set ''  check my balance  '' \<inter> set harmful = {}
   \<and> sanitize_input (PStr ''  check my balance  '') = ''check my balance''
   \<and> set (sanitize_input (PStr ''  check my balance  '')) \<inter> set harmful = {}
   \<and> \<not> is_str PNone \<and> sanitize_input PNone = []"
  using sanitize_input_spec [of "''  check my balance  ''" PNone]
  by (simp add: harmful_def py_strip_def is_space_def whitespace_def)

section \<open>Sample inputs\<close>

text \<open>The model evaluated on the inputs that the statements below refer to.\<close>

lemmas text_defs = py_strip_def is_space_def whitespace_def harmful_def

lemmas lower_defs = py_lower_def lower_char_def upper_chars_def lower_chars_def

lemmas float_defs = py_float_def parse_unsigned_def parse_number_def
  parse_exponent_def float_strip_def float_space_def remove_char_def is_digit_def
  decimal_def digit_value_def round_binary64_def round_half_even_def Let_def

lemma sanitize_hello: "sanitize_input (PStr ''hello'') = ''hello''"
  by (simp add: text_defs)

lemma sanitize_loan: "sanitize_input (PStr ''loan rates'') = ''loan rates''"
  by (simp add: text_defs)

lemma sanitize_blank: "sanitize_input (PStr '' <;> '') = []"
  by (simp add: text_defs)

lemma classify_hello:
  "classify_intent (PStr ''hello'') =
     ([(INFO, ''Intent classified: greeting'')], Inr GREETING)"
  by (simp add: intent_keywords_def lower_defs)

lemma classify_loan:
  "classify_intent (PStr ''loan rates'') =
     ([(INFO, ''Intent classified: loan_info'')], Inr LOAN_INFO)"
  by (simp add: intent_keywords_def lower_defs)

lemma classify_help_balance:
  "classify_intent (PStr ''Help me check my BALANCE'') =
     ([(INFO, ''Intent classified: account_balance'')], Inr ACCOUNT_BALANCE)"
  by (simp add: intent_keywords_def lower_defs)

lemma get_session_greeted:
  "get_session greeted_chatbot ''u1'' =
     ((new_session ''u1'')\<lparr>last_intent := Some GREETING\<rparr>, greeted_chatbot)"
  by (simp add: get_session_def greeted_chatbot_def)

lemma active_sessions_greeted:
  "active_sessions greeted_chatbot ''u1'' =
     Some ((new_session ''u1'')\<lparr>last_intent := Some GREETING\<rparr>)"
  by (simp add: greeted_chatbot_def)

lemma amounts_transfer:
  "re_findall amount_pattern ''Please send $1,200.50 to account 1234567890'' =
     [''1,200.50'', ''123'', ''456'', ''789'', ''0'']"
  by code_simp

lemma accounts_transfer:
  "re_findall account_pattern ''Please send $1,200.50 to account 1234567890'' =
     [''1234567890'']"
  by code_simp

lemma amounts_account_only:
  "re_findall amount_pattern ''1234567890'' = [''123'', ''456'', ''789'', ''0'']"
  by code_simp

lemma amounts_call: "re_findall amount_pattern ''call 555 now'' = [''555'']"
  by code_simp

lemma accounts_call: "re_findall account_pattern ''call 555 now'' = []"
  by code_simp

lemma amounts_hello: "re_findall amount_pattern ''hello'' = []"
  by code_simp

lemma accounts_hello: "re_findall account_pattern ''hello'' = []"
  by code_simp

lemma validate_account_number_examples:
  "validate_account_number (PStr ''12345'') = Inr False"
  "validate_account_number (PStr ''1234567890'') = Inr True"
  "validate_account_number (PStr ''12345678901234'') = Inr False"
  by code_simp+

lemma validate_amount_minus_five:
  "validate_amount (PStr ''-5'') = Inr (False, Finite (- 5))"
  by (simp add: validate_amount_def float_defs lower_defs)

lemma validate_amount_thousand:
  "validate_amount (PStr ''$1,000.00'') = Inr (True, Finite 1000)"
  by (simp add: validate_amount_def float_defs lower_defs)

lemma validate_amount_abc:
  "validate_amount (PStr ''abc'') = Inr (False, Finite 0)"
  by (simp add: validate_amount_def float_defs lower_defs)

section \<open>Properties of the orchestrator\<close>

text \<open>The body of \<^verbatim>\<open>process_message\<close>, case by case.\<close>

lemma try_body_cases:
  "try_body self chat uid message rnd =
     (if sanitize_input message = [] then (Inr invalid_message, snd (get_session chat uid))
      else case intent_classifier self (PStr (sanitize_input message)) of
        (lines, Inl e) \<Rightarrow>
          (Inl e, (snd (get_session chat uid))
             \<lparr>logged := logged (snd (get_session chat uid)) @ lines\<rparr>)
      | (lines, Inr intent) \<Rightarrow>
          (case entity_extractor self (sanitize_input message) of
             Inl e \<Rightarrow>
               (Inl e, (snd (get_session chat uid))
                  \<lparr>active_sessions := (active_sessions (snd (get_session chat uid)))
                     (uid \<mapsto> (fst (get_session chat uid))\<lparr>last_intent := Some intent\<rparr>),
                   logged := logged (snd (get_session chat uid)) @ lines\<rparr>)
           | Inr extracted_data \<Rightarrow>
               (case response_generator self intent
                       ((fst (get_session chat uid))\<lparr>last_intent := Some intent\<rparr>)
                       (Some extracted_data) rnd of
                  Inl e \<Rightarrow>
                    (Inl e, (snd (get_session chat uid))
                       \<lparr>active_sessions := (active_sessions (snd (get_session chat uid)))
                          (uid \<mapsto> (fst (get_session chat uid))\<lparr>last_intent := Some intent\<rparr>),
                        logged := logged (snd (get_session chat uid)) @ lines\<rparr>)
                | Inr response \<Rightarrow>
                    (Inr response, (snd (get_session chat uid))
                       \<lparr>active_sessions := (active_sessions (snd (get_session chat uid)))
                          (uid \<mapsto> (fst (get_session chat uid))\<lparr>last_intent := Some intent\<rparr>),
                        logged := logged (snd (get_session chat uid)) @ lines @
                          [(INFO, ''Processed message for user '' @ uid @ '': '' @
                                  intent_value intent)]\<rparr>))))"
  by (simp add: try_body_def Let_def split: prod.split sum.split)

lemma process_message_returns:
  "\<exists>reply chat'. process_message_with self chat uid message rnd = (Inr reply, chat')"
  by (simp add: process_message_with_def split: prod.split sum.split)

lemma process_message_fault:
  "fst (try_body self chat uid message rnd) = Inl e \<Longrightarrow>
   fst (process_message_with self chat uid message rnd) = Inr apology"
  by (auto simp: process_message_with_def split: prod.splits sum.splits)

lemma classifier_fault_hello:
  "sanitize_input (PStr ''hello'') \<noteq> []
   \<and> snd (intent_classifier failing_classifier (PStr (sanitize_input (PStr ''hello'')))) =
       Inl (RuntimeError ''classifier fault'')"
  by (simp add: sanitize_hello failing_classifier_def del: sanitize_input.simps)

lemma extractor_fault_hello:
  "snd (intent_classifier failing_extractor (PStr (sanitize_input (PStr ''hello'')))) =
     Inr GREETING
   \<and> entity_extractor failing_extractor (sanitize_input (PStr ''hello'')) =
       Inl (RuntimeError ''extractor fault'')"
  by (simp add: sanitize_hello failing_extractor_def FintechChatbot_def classify_hello
      del: sanitize_input.simps classify_intent.simps)

lemma generator_fault_hello:
  "snd (intent_classifier failing_generator (PStr (sanitize_input (PStr ''hello'')))) =
     Inr GREETING
   \<and> entity_extractor failing_generator (sanitize_input (PStr ''hello'')) =
       Inr (extract_entities ''hello'')
   \<and> response_generator failing_generator GREETING
         ((fst (get_session new_chatbot ''u1''))\<lparr>last_intent := Some GREETING\<rparr>)
         (Some (extract_entities ''hello'')) 0 = Inl (RuntimeError ''generator fault'')"
  by (simp add: sanitize_hello failing_generator_def FintechChatbot_def classify_hello
      del: sanitize_input.simps classify_intent.simps)

lemma generator_fault_loan:
  "sanitize_input (PStr ''loan rates'') \<noteq> []
   \<and> snd (intent_classifier failing_generator (PStr (sanitize_input (PStr ''loan rates'')))) =
       Inr LOAN_INFO
   \<and> entity_extractor failing_generator (sanitize_input (PStr ''loan rates'')) =
       Inr (extract_entities ''loan rates'')
   \<and> response_generator failing_generator LOAN_INFO
         ((fst (get_session greeted_chatbot ''u1''))\<lparr>last_intent := Some LOAN_INFO\<rparr>)
         (Some (extract_entities ''loan rates'')) 0 = Inl (RuntimeError ''generator fault'')"
  by (simp add: sanitize_loan failing_generator_def FintechChatbot_def classify_loan
      del: sanitize_input.simps classify_intent.simps)

text \<open>
  Claim C1. For every user and every message value, \<^verbatim>\<open>process_message\<close> returns a text and
  does not raise. This holds of the chatbot as the source builds it and of a chatbot with
  any classifier, extractor and generator in their place; and when the classifier, the
  extractor or the generator raises an exception, the text returned is the fixed apology.
  An exception here is an instance of \<^verbatim>\<open>Exception\<close>, the class that the handler names.
\<close>

theorem process_message_never_raises:
  "(\<exists>reply chat'. process_message chat uid message rnd = (Inr reply, chat'))
   \<and> (\<exists>reply chat'. process_message_with self chat uid message rnd = (Inr reply, chat'))
   \<and> (sanitize_input message \<noteq> [] \<longrightarrow>
        snd (intent_classifier self (PStr (sanitize_input message))) = Inl e \<longrightarrow>
        fst (process_message_with self chat uid message rnd) = Inr apology)
   \<and> (sanitize_input message \<noteq> [] \<longrightarrow>
        snd (intent_classifier self (PStr (sanitize_input message))) = Inr intent \<longrightarrow>
        entity_extractor self (sanitize_input message) = Inl e \<longrightarrow>
        fst (process_message_with self chat uid message rnd) = Inr apology)
   \<and> (sanitize_input message \<noteq> [] \<longrightarrow>
        snd (intent_classifier self (PStr (sanitize_input message))) = Inr intent \<longrightarrow>
        entity_extractor self (sanitize_input message) = Inr extracted_data \<longrightarrow>
        response_generator self intent
          ((fst (get_session chat uid))\<lparr>last_intent := Some intent\<rparr>)
          (Some extracted_data) rnd = Inl e \<longrightarrow>
        fst (process_message_with self chat uid message rnd) = Inr apology)"
proof (intro conjI impI)
  show "\<exists>reply chat'. process_message chat uid message rnd = (Inr reply, chat')"
    unfolding process_message_def by (rule process_message_returns)
  show "\<exists>reply chat'. process_message_with self chat uid message rnd = (Inr reply, chat')"
    by (rule process_message_returns)
next
  assume "sanitize_input message \<noteq> []"
    and "snd (intent_classifier self (PStr (sanitize_input message))) = Inl e"
  then have "fst (try_body self chat uid message rnd) = Inl e"
    by (auto simp: try_body_cases split: prod.splits sum.splits)
  then show "fst (process_message_with self chat uid message rnd) = Inr apology"
    by (rule process_message_fault)
next
  assume "sanitize_input message \<noteq> []"
    and "snd (intent_classifier self (PStr (sanitize_input message))) = Inr intent"
    and "entity_extractor self (sanitize_input message) = Inl e"
  then have "fst (try_body self chat uid message rnd) = Inl e"
    by (auto simp: try_body_cases split: prod.splits sum.splits)
  then show "fst (process_message_with self chat uid message rnd) = Inr apology"
    by (rule process_message_fault)
next
  assume "sanitize_input message \<noteq> []"
    and "snd (intent_classifier self (PStr (sanitize_input message))) = Inr intent"
    and "entity_extractor self (sanitize_input message) = Inr extracted_data"
    and "response_generator self intent
          ((fst (get_session chat uid))\<lparr>last_intent := Some intent\<rparr>)
          (Some extracted_data) rnd = Inl e"
  then have "fst (try_body self chat uid message rnd) = Inl e"
    by (auto simp: try_body_cases split: prod.splits sum.splits)
  then show "fst (process_message_with self chat uid message rnd) = Inr apology"
    by (rule process_message_fault)
qed

theorem process_message_never_raises_witness:
  "(\<exists>reply chat'. process_message new_chatbot ''u1'' (PStr ''hello'') 0 = (Inr reply, chat'))
   \<and> sanitize_input (PStr ''hello'') \<noteq> []
   \<and> snd (intent_classifier failing_classifier (PStr (sanitize_input (PStr ''hello'')))) =
       Inl (RuntimeError ''classifier fault'')
   \<and> fst (process_message_with failing_classifier new_chatbot ''u1'' (PStr ''hello'') 0) =
       Inr apology
   \<and> entity_extractor failing_extractor (sanitize_input (PStr ''hello'')) =
       Inl (RuntimeError ''extractor fault'')
   \<and> fst (process_message_with failing_extractor new_chatbot ''u1'' (PStr ''hello'') 0) =
       Inr apology
   \<and> response_generator failing_generator GREETING
         ((fst (get_session new_chatbot ''u1''))\<lparr>last_intent := Some GREETING\<rparr>)
         (Some (extract_entities ''hello'')) 0 = Inl (RuntimeError ''generator fault'')
   \<and> fst (process_message_with failing_generator new_chatbot ''u1'' (PStr ''hello'') 0) =
       Inr apology"
  using
    process_message_never_raises [where self = failing_classifier and chat = new_chatbot
      and uid = "''u1''" and message = "PStr ''hello''" and rnd = 0
      and e = "RuntimeError ''classifier fault''"]
    process_message_never_raises [where self = failing_extractor and chat = new_chatbot
      and uid = "''u1''" and message = "PStr ''hello''" and rnd = 0
      and e = "RuntimeError ''extractor fault''" and intent = GREETING]
    process_message_never_raises [where self = failing_generator and chat = new_chatbot
      and uid = "''u1''" and message = "PStr ''hello''" and rnd = 0
      and e = "RuntimeError ''generator fault''" and intent = GREETING
      and extracted_data = "extract_entities ''hello''"]
    classifier_fault_hello extractor_fault_hello generator_fault_hello
  by blast

text \<open>
  Claim C7. When the sanitized form of the message is empty (the empty text, a text of
  harmful characters and white space only, a value that is not a text), \<^verbatim>\<open>process_message\<close>
  returns the fixed invalid-message text, and the chatbot is left as \<^verbatim>\<open>get_session\<close> left it.
  The outcome is the same for every classifier, extractor and generator, those that raise
  on every call included: none of them is consulted.
\<close>

theorem process_message_empty:
  "sanitize_input message = [] \<Longrightarrow>
   process_message_with self chat uid message rnd =
     (Inr invalid_message, snd (get_session chat uid))
   \<and> process_message chat uid message rnd =
     (Inr invalid_message, snd (get_session chat uid))"
  by (simp add: process_message_def process_message_with_def try_body_cases)

theorem process_message_empty_witness:
  "sanitize_input (PStr '' <;> '') = []
   \<and> process_message_with failing_classifier greeted_chatbot ''u1'' (PStr '' <;> '') 0 =
       (Inr invalid_message, greeted_chatbot)
   \<and> process_message greeted_chatbot ''u1'' (PStr '' <;> '') 0 =
       (Inr invalid_message, greeted_chatbot)
   \<and> sanitize_input PNone = []
   \<and> process_message greeted_chatbot ''u1'' PNone 0 = (Inr invalid_message, greeted_chatbot)"
  using
    process_message_empty [where message = "PStr '' <;> ''" and self = failing_classifier
      and chat = greeted_chatbot and uid = "''u1''" and rnd = 0]
    process_message_empty [where message = PNone and self = failing_classifier
      and chat = greeted_chatbot and uid = "''u1''" and rnd = 0]
    sanitize_blank
  by (simp add: get_session_greeted del: sanitize_input.simps(1))

text \<open>
  Claim C9. For a message that is not empty after sanitization, the classified intent is
  stored in the \<^verbatim>\<open>last_intent\<close> of the user's session before the generator is called: the
  generator receives a session that holds it. Whatever happens afterwards, the session
  stored for the user holds the new intent when \<^verbatim>\<open>process_message\<close> returns; in
  particular, when the generator raises, the apology is returned and the earlier value
  of \<^verbatim>\<open>last_intent\<close> is not restored.
\<close>

theorem process_message_last_intent:
  assumes "sanitize_input message \<noteq> []"
    and "snd (intent_classifier self (PStr (sanitize_input message))) = Inr intent"
  shows "active_sessions (snd (process_message_with self chat uid message rnd)) uid =
           Some ((fst (get_session chat uid))\<lparr>last_intent := Some intent\<rparr>)
         \<and> (entity_extractor self (sanitize_input message) = Inr extracted_data \<longrightarrow>
            response_generator self intent
              ((fst (get_session chat uid))\<lparr>last_intent := Some intent\<rparr>)
              (Some extracted_data) rnd = Inl e \<longrightarrow>
            fst (process_message_with self chat uid message rnd) = Inr apology)"
  using assms
  by (auto simp: process_message_with_def try_body_cases split: prod.splits sum.splits)

theorem process_message_last_intent_witness:
  "sanitize_input (PStr ''loan rates'') \<noteq> []
   \<and> snd (intent_classifier failing_generator (PStr (sanitize_input (PStr ''loan rates'')))) =
       Inr LOAN_INFO
   \<and> active_sessions greeted_chatbot ''u1'' =
       Some ((new_session ''u1'')\<lparr>last_intent := Some GREETING\<rparr>)
   \<and> active_sessions
         (snd (process_message_with failing_generator greeted_chatbot ''u1''
                 (PStr ''loan rates'') 0)) ''u1'' =
       Some ((new_session ''u1'')\<lparr>last_intent := Some LOAN_INFO\<rparr>)
   \<and> fst (process_message_with failing_generator greeted_chatbot ''u1''
             (PStr ''loan rates'') 0) = Inr apology"
  using
    process_message_last_intent [where message = "PStr ''loan rates''"
      and self = failing_generator and intent = LOAN_INFO and chat = greeted_chatbot
      and uid = "''u1''" and rnd = 0 and extracted_data = "extract_entities ''loan rates''"
      and e = "RuntimeError ''generator fault''"]
    generator_fault_loan
  by (simp add: get_session_greeted active_sessions_greeted
      del: sanitize_input.simps classify_intent.simps)

section \<open>Properties of the response generator\<close>

text \<open>
  Claim C3. For a session that is not authenticated and an intent among
  \<^verbatim>\<open>account_balance\<close>, \<^verbatim>\<open>transaction_history\<close> and \<^verbatim>\<open>transfer_money\<close>,
  \<^verbatim>\<open>generate_response\<close> returns the fixed request to verify the identity, whatever the
  entities are (also when none are passed) and whatever the handlers would do: the reply
  is the same for every set of handlers, so no handler has run.
\<close>

theorem generate_response_gate:
  "\<not> authenticated session \<Longrightarrow> intent \<in> set authentication_required \<Longrightarrow>
   generate_response self intent session extracted_data rnd = Inr request_authentication"
  by (simp add: generate_response_def)

theorem generate_response_gate_witness:
  "\<not> authenticated (new_session ''u1'')
   \<and> ACCOUNT_BALANCE \<in> set authentication_required
   \<and> generate_response failing_handlers ACCOUNT_BALANCE (new_session ''u1'')
         (Some [''amount'' \<mapsto> PStr ''5'']) 0 = Inr request_authentication
   \<and> generate_response ResponseGenerator ACCOUNT_BALANCE (new_session ''u1'') None 0 =
       Inr request_authentication"
  using
    generate_response_gate [where session = "new_session ''u1''" and intent = ACCOUNT_BALANCE
      and self = failing_handlers and extracted_data = "Some [''amount'' \<mapsto> PStr ''5'']"
      and rnd = 0]
    generate_response_gate [where session = "new_session ''u1''" and intent = ACCOUNT_BALANCE
      and self = ResponseGenerator and extracted_data = None and rnd = 0]
  by (simp add: new_session_def authentication_required_def)

section \<open>Properties of the classifier\<close>

lemma starts_with_prefix: "starts_with k s = prefix k s"
  by (induction k s rule: starts_with.induct) simp_all

lemma py_in_sublist: "py_in k s = sublist k s"
proof (induction s)
  case Nil
  then show ?case by simp
next
  case (Cons c cs)
  then show ?case by (simp add: starts_with_prefix sublist_Cons_right)
qed

lemma classify_scan_spec:
  "classify_scan intent_keywords (py_lower s) =
     (case filter (\<lambda>intent. keyword_occurs intent s) declared_order of
        [] \<Rightarrow> None | intent # others \<Rightarrow> Some intent)"
  by (simp add: intent_keywords_def declared_order_def keyword_occurs_def keywords_of_def
      py_in_sublist)

text \<open>
  Claim C4. \<^verbatim>\<open>classify_intent\<close> returns an intent for every text, and the intent is the one
  the specification describes: the first intent, in the declared order, one of whose
  keywords occurs in the lower-cased text, and \<^verbatim>\<open>unknown\<close> when there is none. It logs
  one line that names the intent.
\<close>

theorem classify_intent_spec:
  "classify_intent (PStr s) =
     ([(INFO, ''Intent classified: '' @ intent_value (classify_spec s))],
      Inr (classify_spec s))"
  by (simp add: classify_scan_spec classify_spec_def split: list.split)

theorem classify_intent_spec_witness:
  "classify_intent (PStr ''Help me check my BALANCE'') =
     ([(INFO, ''Intent classified: account_balance'')], Inr ACCOUNT_BALANCE)
   \<and> classify_spec ''Help me check my BALANCE'' = ACCOUNT_BALANCE"
proof -
  have "snd (classify_intent (PStr ''Help me check my BALANCE'')) =
          Inr (classify_spec ''Help me check my BALANCE'')"
    using classify_intent_spec [of "''Help me check my BALANCE''"]
    by (simp only: snd_conv)
  moreover have "snd (classify_intent (PStr ''Help me check my BALANCE'')) =
          Inr ACCOUNT_BALANCE"
    by (simp only: classify_help_balance snd_conv)
  ultimately have "classify_spec ''Help me check my BALANCE'' = ACCOUNT_BALANCE"
    by (simp only: sum.inject)
  then show ?thesis
    using classify_help_balance by (simp only: simp_thms)
qed

section \<open>Properties of the validators\<close>

text \<open>
  What \<^verbatim>\<open>\d{m,n}\<close> can consume: any number of digits from \<open>m\<close> to \<open>n\<close> that stand at the
  position.
\<close>

lemma rep_digit_set:
  "set (rep_iter (matches Digit) lo hi st) =
     {step_digits k st | k. lo \<le> k \<and> k \<le> hi \<and> k \<le> length (rest st)
        \<and> list_all is_digit (take k (rest st))}"
proof (induction hi arbitrary: lo st)
  case 0
  then show ?case by (auto simp: step_digits_def)
next
  case (Suc hi)
  show ?case
  proof (cases "rest st")
    case Nil
    then show ?thesis by (auto simp: step_digits_def)
  next
    case (Cons c cs)
    show ?thesis
    proof (cases "is_digit c")
      case False
      have k0: "list_all is_digit (take k (rest st)) = (k = 0)" for k
        using Cons False by (cases k) auto
      have "set (rep_iter (matches Digit) lo (Suc hi) st) = (if lo = 0 then {st} else {})"
        using Cons False by simp
      also have "\<dots> = (if lo = 0 then {step_digits 0 st} else {})"
        by (simp add: step_digits_def)
      also have "\<dots> = {step_digits k st | k. lo \<le> k \<and> k \<le> Suc hi \<and> k \<le> length (rest st)
                          \<and> list_all is_digit (take k (rest st))}"
        unfolding k0 by auto
      finally show ?thesis .
    next
      case True
      let ?st1 = "st\<lparr>seen := c # seen st, rest := cs\<rparr>"
      have step: "step_digits (Suc k) st = step_digits k ?st1" for k
        by (simp add: step_digits_def Cons)
      have "set (rep_iter (matches Digit) lo (Suc hi) st) =
              set (rep_iter (matches Digit) (lo - 1) hi ?st1) \<union> (if lo = 0 then {st} else {})"
        using Cons True by simp
      also have "\<dots> = {step_digits k ?st1 | k. lo - 1 \<le> k \<and> k \<le> hi \<and> k \<le> length cs
                          \<and> list_all is_digit (take k cs)} \<union> (if lo = 0 then {st} else {})"
        by (simp only: Suc.IH) simp
      also have "\<dots> = {step_digits k st | k. lo \<le> k \<and> k \<le> Suc hi \<and> k \<le> length (rest st)
                          \<and> list_all is_digit (take k (rest st))}"
      proof (intro set_eqI iffI)
        fix x
        assume "x \<in> {step_digits k ?st1 | k. lo - 1 \<le> k \<and> k \<le> hi \<and> k \<le> length cs
                          \<and> list_all is_digit (take k cs)} \<union> (if lo = 0 then {st} else {})"
        then consider (a) k where "x = step_digits k ?st1" "lo - 1 \<le> k" "k \<le> hi" "k \<le> length cs"
              "list_all is_digit (take k cs)"
          | (b) "lo = 0" "x = st"
          by (auto split: if_splits)
        then show "x \<in> {step_digits k st | k. lo \<le> k \<and> k \<le> Suc hi \<and> k \<le> length (rest st)
                          \<and> list_all is_digit (take k (rest st))}"
        proof cases
          case a
          then have "x = step_digits (Suc k) st \<and> lo \<le> Suc k \<and> Suc k \<le> Suc hi
              \<and> Suc k \<le> length (rest st) \<and> list_all is_digit (take (Suc k) (rest st))"
            using True Cons by (simp add: step)
          then show ?thesis by blast
        next
          case b
          then have "x = step_digits 0 st \<and> lo \<le> 0 \<and> 0 \<le> Suc hi
              \<and> 0 \<le> length (rest st) \<and> list_all is_digit (take 0 (rest st))"
            by (simp add: step_digits_def)
          then show ?thesis by blast
        qed
      next
        fix x
        assume "x \<in> {step_digits k st | k. lo \<le> k \<and> k \<le> Suc hi \<and> k \<le> length (rest st)
                          \<and> list_all is_digit (take k (rest st))}"
        then obtain k where k: "x = step_digits k st" "lo \<le> k" "k \<le> Suc hi"
            "k \<le> length (rest st)" "list_all is_digit (take k (rest st))"
          by blast
        show "x \<in> {step_digits k ?st1 | k. lo - 1 \<le> k \<and> k \<le> hi \<and> k \<le> length cs
                          \<and> list_all is_digit (take k cs)} \<union> (if lo = 0 then {st} else {})"
        proof (cases k)
          case 0
          with k show ?thesis by (simp add: step_digits_def)
        next
          case (Suc j)
          with k Cons have "x = step_digits j ?st1 \<and> lo - 1 \<le> j \<and> j \<le> hi \<and> j \<le> length cs
              \<and> list_all is_digit (take j cs)"
            by (simp add: step)
          then show ?thesis by blast
        qed
      qed
      finally show ?thesis .
    qed
  qed
qed

text \<open>The pattern \<^verbatim>\<open>^\d{10,12}$\<close> at the start of a text.\<close>

lemma account_number_format_matches:
  "(matches account_number_format \<lparr>seen = [], rest = s, group1 = None\<rparr> \<noteq> []) =
     (\<exists>k. 10 \<le> k \<and> k \<le> 12 \<and> k \<le> length s \<and> list_all is_digit (take k s)
          \<and> (drop k s = [] \<or> drop k s = [CHR 0x0A]))"
proof -
  let ?st = "\<lparr>seen = [], rest = s, group1 = None\<rparr>"
  have eol: "(matches Eol st' \<noteq> []) = (rest st' = [] \<or> rest st' = [CHR 0x0A])" for st'
    by simp
  have "matches account_number_format ?st =
          concat (map (matches Eol) (rep_iter (matches Digit) 10 12 ?st))"
    by (simp add: account_number_format_def)
  then have "(matches account_number_format ?st \<noteq> []) =
          (\<exists>st' \<in> set (rep_iter (matches Digit) 10 12 ?st). matches Eol st' \<noteq> [])"
    by (simp only: concat_eq_Nil_conv set_map ball_simps bex_simps image_iff)
  also have "\<dots> = (\<exists>st' \<in> set (rep_iter (matches Digit) 10 12 ?st).
                       rest st' = [] \<or> rest st' = [CHR 0x0A])"
    by (simp only: eol)
  also have "\<dots> = (\<exists>k. 10 \<le> k \<and> k \<le> 12 \<and> k \<le> length s \<and> list_all is_digit (take k s)
          \<and> (drop k s = [] \<or> drop k s = [CHR 0x0A]))"
  proof
    assume "\<exists>st' \<in> set (rep_iter (matches Digit) 10 12 ?st). rest st' = [] \<or> rest st' = [CHR 0x0A]"
    then obtain st' where "st' \<in> set (rep_iter (matches Digit) 10 12 ?st)"
      and r: "rest st' = [] \<or> rest st' = [CHR 0x0A]" by blast
    then obtain k where "st' = step_digits k ?st" "10 \<le> k" "k \<le> 12" "k \<le> length s"
        "list_all is_digit (take k s)"
      unfolding rep_digit_set by auto
    moreover from this r have "drop k s = [] \<or> drop k s = [CHR 0x0A]"
      by (simp add: step_digits_def)
    ultimately show "\<exists>k. 10 \<le> k \<and> k \<le> 12 \<and> k \<le> length s \<and> list_all is_digit (take k s)
          \<and> (drop k s = [] \<or> drop k s = [CHR 0x0A])" by blast
  next
    assume "\<exists>k. 10 \<le> k \<and> k \<le> 12 \<and> k \<le> length s \<and> list_all is_digit (take k s)
          \<and> (drop k s = [] \<or> drop k s = [CHR 0x0A])"
    then obtain k where k: "10 \<le> k" "k \<le> 12" "k \<le> length s" "list_all is_digit (take k s)"
        "drop k s = [] \<or> drop k s = [CHR 0x0A]" by blast
    then have "step_digits k ?st \<in> set (rep_iter (matches Digit) 10 12 ?st)"
      unfolding rep_digit_set by auto
    moreover have "rest (step_digits k ?st) = [] \<or> rest (step_digits k ?st) = [CHR 0x0A]"
      using k(5) by (simp add: step_digits_def)
    ultimately show "\<exists>st' \<in> set (rep_iter (matches Digit) 10 12 ?st).
                       rest st' = [] \<or> rest st' = [CHR 0x0A]" by blast
  qed
  finally show ?thesis .
qed

text \<open>
  The texts that \<^verbatim>\<open>validate_account_number\<close> accepts: 10 to 12 digits, and 10 to 12 digits
  followed by one line feed.
\<close>

lemma validate_account_number_accepts:
  "validate_account_number (PStr s) =
     Inr (\<exists>ds. list_all is_digit ds \<and> 10 \<le> length ds \<and> length ds \<le> 12
              \<and> (s = ds \<or> s = ds @ [CHR 0x0A]))"
proof -
  have eq: "(\<exists>k. 10 \<le> k \<and> k \<le> 12 \<and> k \<le> length s \<and> list_all is_digit (take k s)
          \<and> (drop k s = [] \<or> drop k s = [CHR 0x0A])) =
        (\<exists>ds. list_all is_digit ds \<and> 10 \<le> length ds \<and> length ds \<le> 12
              \<and> (s = ds \<or> s = ds @ [CHR 0x0A]))" (is "?L = ?R")
  proof
    assume ?L
    then obtain k where k: "10 \<le> k" "k \<le> 12" "k \<le> length s" "list_all is_digit (take k s)"
      "drop k s = [] \<or> drop k s = [CHR 0x0A]" by blast
    have len: "length (take k s) = k" using k(3) by simp
    have "list_all is_digit (take k s)" by (rule k(4))
    moreover have "10 \<le> length (take k s)" unfolding len by (rule k(1))
    moreover have "length (take k s) \<le> 12" unfolding len by (rule k(2))
    moreover have "s = take k s \<or> s = take k s @ [CHR 0x0A]"
      using k(5) by (metis append_take_drop_id append_Nil2)
    ultimately show ?R by (intro exI [of _ "take k s"] conjI)
  next
    assume ?R
    then obtain ds where ds: "list_all is_digit ds" "10 \<le> length ds" "length ds \<le> 12"
      "s = ds \<or> s = ds @ [CHR 0x0A]" by blast
    then have "10 \<le> length ds \<and> length ds \<le> 12 \<and> length ds \<le> length s
        \<and> list_all is_digit (take (length ds) s)
        \<and> (drop (length ds) s = [] \<or> drop (length ds) s = [CHR 0x0A])"
      by auto
    then show ?L by (rule exI [of _ "length ds"])
  qed
  have "(re_match account_number_format s \<noteq> None) =
          (matches account_number_format \<lparr>seen = [], rest = s, group1 = None\<rparr> \<noteq> [])"
    by (simp add: re_match_def match_at_def split: list.split)
  also note account_number_format_matches
  also note eq
  finally show ?thesis by simp
qed

text \<open>
  Claim C5. The claim is that \<^verbatim>\<open>validate_account_number\<close> accepts a text exactly when it
  consists of 10 to 12 digits. The code accepts more (see \<open>validate_account_number_accepts\<close>):
  \<^verbatim>\<open>$\<close> also holds before a line feed at the end of the text, so ten digits followed by a
  line feed, eleven characters of which one is not a digit, are accepted.
\<close>

theorem validate_account_number_trailing_newline:
  "validate_account_number (PStr ''1234567890\<newline>'') = Inr True"
  by code_simp

lemma py_float_error: "py_float s = Inl e \<Longrightarrow> \<exists>m. e = ValueError m"
  by (auto simp: py_float_def split: option.splits list.splits if_splits)

lemma validate_amount_str:
  "validate_amount (PStr s) =
     (case py_float (remove_char CHR '','' (remove_char CHR ''$'' s)) of
        Inl e \<Rightarrow> Inr (False, Finite 0)
      | Inr v \<Rightarrow> Inr (float_gt_zero v, v))"
proof (cases "py_float (remove_char CHR '','' (remove_char CHR ''$'' s))")
  case (Inl e)
  then obtain m where "e = ValueError m" using py_float_error by blast
  with Inl show ?thesis by (simp add: validate_amount_def)
next
  case (Inr v)
  then show ?thesis by (simp add: validate_amount_def)
qed

text \<open>
  Claim C2, as stated, says that \<^verbatim>\<open>validate_amount("-5")\<close> returns \<^verbatim>\<open>(False, 0.0)\<close>. It
  does not: the text parses, and the parsed value is returned with the verdict.
\<close>

theorem validate_amount_negative_counterexample:
  "validate_amount (PStr ''-5'') \<noteq> Inr (False, Finite 0)"
  by (simp add: validate_amount_minus_five)

text \<open>
  Claim C2, amended. \<^verbatim>\<open>validate_amount\<close> removes \<^verbatim>\<open>$\<close> and \<^verbatim>\<open>,\<close> from the text and parses
  the rest as a \<^verbatim>\<open>float\<close>. When the parse fails it returns \<^verbatim>\<open>(False, 0.0)\<close>; when it
  succeeds with the value \<open>v\<close> it returns \<open>v\<close> together with the truth of \<open>v > 0\<close>. So the
  first component is true exactly when the parse succeeds with a value above zero.
  \<^verbatim>\<open>validate_amount("-5")\<close> is \<^verbatim>\<open>(False, -5.0)\<close> and \<^verbatim>\<open>validate_amount("$1,000.00")\<close> is
  \<^verbatim>\<open>(True, 1000.0)\<close>.
\<close>

theorem validate_amount_spec:
  "validate_amount (PStr s) =
     (case py_float (remove_char CHR '','' (remove_char CHR ''$'' s)) of
        Inl e \<Rightarrow> Inr (False, Finite 0)
      | Inr v \<Rightarrow> Inr (float_gt_zero v, v))
   \<and> ((\<exists>v. validate_amount (PStr s) = Inr (True, v)) =
       (\<exists>v. py_float (remove_char CHR '','' (remove_char CHR ''$'' s)) = Inr v
            \<and> float_gt_zero v))
   \<and> validate_amount (PStr ''-5'') = Inr (False, Finite (- 5))
   \<and> validate_amount (PStr ''$1,000.00'') = Inr (True, Finite 1000)"
proof (intro conjI)
  show "validate_amount (PStr s) =
     (case py_float (remove_char CHR '','' (remove_char CHR ''$'' s)) of
        Inl e \<Rightarrow> Inr (False, Finite 0)
      | Inr v \<Rightarrow> Inr (float_gt_zero v, v))"
    by (rule validate_amount_str)
  show "(\<exists>v. validate_amount (PStr s) = Inr (True, v)) =
       (\<exists>v. py_float (remove_char CHR '','' (remove_char CHR ''$'' s)) = Inr v
            \<and> float_gt_zero v)"
    by (cases "py_float (remove_char CHR '','' (remove_char CHR ''$'' s))")
       (auto simp: validate_amount_str)
  show "validate_amount (PStr ''-5'') = Inr (False, Finite (- 5))"
    by (rule validate_amount_minus_five)
  show "validate_amount (PStr ''$1,000.00'') = Inr (True, Finite 1000)"
    by (rule validate_amount_thousand)
qed

theorem validate_amount_spec_witness:
  "py_float (remove_char CHR '','' (remove_char CHR ''$'' ''abc'')) =
     Inl (ValueError ''could not convert string to float'')
   \<and> validate_amount (PStr ''abc'') = Inr (False, Finite 0)
   \<and> \<not> (\<exists>v. validate_amount (PStr ''abc'') = Inr (True, v))"
  using validate_amount_spec [of "''abc''"]
  by (simp add: float_defs lower_defs)

section \<open>Properties of the entity extractor\<close>

lemma concat_map_nonempty: "x \<in> set xs \<Longrightarrow> f x \<noteq> [] \<Longrightarrow> concat (map f xs) \<noteq> []"
  by (induction xs) auto

lemma star_iter_nonempty: "star_iter n f st \<noteq> []"
  by (cases n) simp_all

lemma matches_Opt_nonempty: "matches (Opt r) st \<noteq> []"
  by simp

lemma matches_Star_nonempty: "matches (Star r) st \<noteq> []"
  by (simp add: star_iter_nonempty)

lemma matches_Seq_nonempty:
  assumes "matches r1 st \<noteq> []" and "\<And>st'. matches r2 st' \<noteq> []"
  shows "matches (Seq r1 r2) st \<noteq> []"
proof -
  from assms(1) obtain x where "x \<in> set (matches r1 st)"
    by (cases "matches r1 st") auto
  then show ?thesis
    using assms(2) by (simp del: concat_eq_Nil_conv add: concat_map_nonempty)
qed

text \<open>One to three digits match wherever a digit stands.\<close>

lemma digit_run_nonempty:
  assumes "rest st = d # t" and "is_digit d"
  shows "rep_iter (matches Digit) 1 3 st \<noteq> []"
proof -
  have "rep_iter (matches Digit) 1 (Suc (Suc (Suc 0))) st \<noteq> []"
    using assms by simp
  then show ?thesis by (simp add: numeral_3_eq_3)
qed

text \<open>The amount pattern matches at every digit: the dollar sign is optional.\<close>

lemma amount_pattern_at_digit:
  assumes "is_digit d"
  shows "match_at amount_pattern b (d # t) \<noteq> None"
proof -
  let ?st = "\<lparr>seen = b, rest = d # t, group1 = None\<rparr>"
  let ?tail = "Seq (Star (Seq (Lit CHR '','') (Rep Digit 3 3)))
                   (Opt (Seq (Lit CHR ''.'') (Rep Digit 2 2)))"
  have tail: "matches ?tail st' \<noteq> []" for st'
    by (rule matches_Seq_nonempty) (rule matches_Star_nonempty, rule matches_Opt_nonempty)
  have "matches (Rep Digit 1 3) ?st \<noteq> []"
    using digit_run_nonempty [of ?st d t] assms by simp
  then have "matches (Seq (Rep Digit 1 3) ?tail) ?st \<noteq> []"
    using tail by (rule matches_Seq_nonempty)
  then have grp: "matches (Group (Seq (Rep Digit 1 3) ?tail)) ?st \<noteq> []"
    by simp
  have "?st \<in> set (matches (Opt (Lit CHR ''$'')) ?st)"
    by simp
  then have "concat (map (matches (Group (Seq (Rep Digit 1 3) ?tail)))
                      (matches (Opt (Lit CHR ''$'')) ?st)) \<noteq> []"
    using grp by (rule concat_map_nonempty)
  then have "matches amount_pattern ?st \<noteq> []"
    by (simp add: amount_pattern_def)
  then show ?thesis
    by (simp add: match_at_def split: list.split)
qed

text \<open>A match somewhere to the right makes the list of \<^verbatim>\<open>findall\<close> non-empty.\<close>

lemma findall_from_nonempty:
  "match_at r (rev pre @ b) suf \<noteq> None \<Longrightarrow> findall_from r b (pre @ suf) \<noteq> []"
proof (induction pre arbitrary: b)
  case Nil
  then show ?case
    by (subst findall_from.simps) (auto split: option.splits)
next
  case (Cons c pre)
  from Cons.prems have "match_at r (rev pre @ (c # b)) suf \<noteq> None" by simp
  then have "findall_from r (c # b) (pre @ suf) \<noteq> []" by (rule Cons.IH)
  then show ?case
    by (subst findall_from.simps) (auto split: option.splits)
qed

lemma amounts_found:
  assumes "\<exists>c \<in> set s. is_digit c"
  shows "re_findall amount_pattern s \<noteq> []"
proof -
  from assms obtain d where "d \<in> set s" and d: "is_digit d" by blast
  then obtain pre t where s: "s = pre @ d # t" by (auto dest: split_list)
  have "match_at amount_pattern (rev pre @ []) (d # t) \<noteq> None"
    using d by (rule amount_pattern_at_digit)
  then have "findall_from amount_pattern [] (pre @ d # t) \<noteq> []"
    by (rule findall_from_nonempty)
  then show ?thesis by (simp add: re_findall_def s)
qed

lemma extract_entities_amount:
  "extract_entities s ''amount'' =
     (case re_findall amount_pattern s of [] \<Rightarrow> None | a # as \<Rightarrow> Some (PStr a))"
  by (simp add: extract_entities_def Let_def split: list.split)

text \<open>
  Claim C8. On \<^verbatim>\<open>Please send $1,200.50 to account 1234567890\<close> the extractor returns the
  dictionary with \<^verbatim>\<open>amount\<close> \<^verbatim>\<open>1,200.50\<close> and \<^verbatim>\<open>account_number\<close> \<^verbatim>\<open>1234567890\<close> and nothing
  else. On every text the keys of the result are exactly those whose pattern found a
  match, and no key is bound to \<^verbatim>\<open>None\<close>.
\<close>

theorem extract_entities_keys:
  "extract_entities ''Please send $1,200.50 to account 1234567890'' =
     [''amount'' \<mapsto> PStr ''1,200.50'', ''account_number'' \<mapsto> PStr ''1234567890'']
   \<and> dom (extract_entities s) =
       (if re_findall amount_pattern s = [] then {} else {''amount''}) \<union>
       (if re_findall account_pattern s = [] then {} else {''account_number''})
   \<and> extract_entities s k \<noteq> Some PNone"
proof (intro conjI)
  show "extract_entities ''Please send $1,200.50 to account 1234567890'' =
     [''amount'' \<mapsto> PStr ''1,200.50'', ''account_number'' \<mapsto> PStr ''1234567890'']"
    by (simp add: extract_entities_def amounts_transfer accounts_transfer)
  show "dom (extract_entities s) =
       (if re_findall amount_pattern s = [] then {} else {''amount''}) \<union>
       (if re_findall account_pattern s = [] then {} else {''account_number''})"
    by (auto simp: extract_entities_def Let_def split: list.splits if_splits)
  show "extract_entities s k \<noteq> Some PNone"
    by (auto simp: extract_entities_def Let_def split: list.splits if_splits)
qed

theorem extract_entities_keys_witness:
  "dom (extract_entities ''hello'') = {}
   \<and> dom (extract_entities ''call 555 now'') = {''amount''}
   \<and> extract_entities ''call 555 now'' ''account_number'' \<noteq> Some PNone"
  using extract_entities_keys [of "''hello''" "''account_number''"]
    extract_entities_keys [of "''call 555 now''" "''account_number''"]
  by (simp add: amounts_hello accounts_hello amounts_call accounts_call)

text \<open>
  Claim C10. For every text that holds a digit, the result of the extractor has the key
  \<^verbatim>\<open>amount\<close>, bound to the first item that \<^verbatim>\<open>findall\<close> reports for the amount pattern. A
  text that is only a ten-digit account number yields the amount \<^verbatim>\<open>123\<close>.
\<close>

theorem extract_entities_digits:
  "((\<exists>c \<in> set s. is_digit c) \<longrightarrow>
      (\<exists>a as. re_findall amount_pattern s = a # as
              \<and> extract_entities s ''amount'' = Some (PStr a)))
   \<and> extract_entities ''1234567890'' ''amount'' = Some (PStr ''123'')"
proof (intro conjI impI)
  assume "\<exists>c \<in> set s. is_digit c"
  then have "re_findall amount_pattern s \<noteq> []" by (rule amounts_found)
  then show "\<exists>a as. re_findall amount_pattern s = a # as
                   \<and> extract_entities s ''amount'' = Some (PStr a)"
    by (cases "re_findall amount_pattern s") (simp_all add: extract_entities_amount)
next
  show "extract_entities ''1234567890'' ''amount'' = Some (PStr ''123'')"
    by (simp add: extract_entities_amount amounts_account_only)
qed

theorem extract_entities_digits_witness:
  "(\<exists>c \<in> set ''call 555 now''. is_digit c)
   \<and> extract_entities ''call 555 now'' ''amount'' = Some (PStr ''555'')"
  using extract_entities_digits [of "''call 555 now''"]
  by (simp add: amounts_call is_digit_def)

end
